theory Spec2Isabelle
  imports Main
begin

section \<open>The sscha command-line driver and its example input\<close>

text \<open>
  The repository's own logic is the script \<^verbatim>\<open>sscha\<close> (Python 2: it passes
  \<^verbatim>\<open>version=\<close> to \<^verbatim>\<open>ArgumentParser\<close>). It builds an argparse parser, parses the
  command line, and then calls, one after the other, the constructor and the methods of
  an externally defined minimizer. This theory embeds the script as a program over an
  explicit state (the file system it can see and the log of the calls it makes to the
  outside), with Python exceptions as values. The second source file is the example
  input \<^verbatim>\<open>simple_mode_locking.in\<close>, embedded line by line.
\<close>

subsection \<open>Python values and exceptions\<close>

text \<open>
  The values the script handles: \<^verbatim>\<open>None\<close>, booleans, strings, and the numeric literal
  \<^verbatim>\<open>VERSION = 0.1\<close> (kept as the text of the literal).
\<close>

datatype pyval = PyNone | PyBool bool | PyStr string | PyNum string

text \<open>
  Exceptions. \<^verbatim>\<open>SystemExit\<close> carries the exit status; \<^verbatim>\<open>LibraryError\<close> stands for
  any exception raised inside the external minimizer library.
\<close>

datatype exn =
    SystemExit nat
  | IOError string
  | TypeError string
  | ValueError string
  | AttributeError string
  | LibraryError string

subsection \<open>The state: file system and log of outside calls\<close>

text \<open>
  What a path names: nothing, a directory, a regular file with its lines (as
  \<^verbatim>\<open>readlines\<close> returns them), a file that exists but may not be opened, or a file
  that opens but whose reading fails.
\<close>

datatype node = Directory | Regular "string list" | Unreadable | Faulty

type_synonym filesystem = "string \<rightharpoonup> node"

text \<open>
  Every call the script makes to the outside world is logged, in order, at the moment it
  is made: the entry stands in the log whether the call then returns or raises.
  \<open>NewMinimizer\<close> is the call of the constructor \<^verbatim>\<open>SSCHA_Minimizer()\<close>.
\<close>

datatype event =
    PathExists string
  | ParserError string
  | PrintHelp
  | PrintVersion string
  | NewMinimizer
  | Open string string
  | ReadLines string
  | Close string
  | SetupFromNamelist "string list"
  | Init
  | Run
  | Finalize int
  | SaveQE string
  | PlotResults pyval pyval

record state =
  files :: filesystem
  trace :: "event list"

text \<open>
  A piece of the script is a function from the state to the new state and either the
  exception it raised (\<open>Inl\<close>) or the value it returned (\<open>Inr\<close>).
\<close>

type_synonym 'a prog = "state \<Rightarrow> state \<times> (exn + 'a)"

definition return_val :: "'a \<Rightarrow> 'a prog" where
  "return_val x = (\<lambda>s. (s, Inr x))"

definition raise_exn :: "exn \<Rightarrow> 'a prog" where
  "raise_exn e = (\<lambda>s. (s, Inl e))"

text \<open>Sequencing: an exception of the first part ends the run; nothing catches it.\<close>

definition and_then :: "'a prog \<Rightarrow> ('a \<Rightarrow> 'b prog) \<Rightarrow> 'b prog" where
  "and_then m f = (\<lambda>s. case m s of (s', Inl e) \<Rightarrow> (s', Inl e) | (s', Inr x) \<Rightarrow> f x s')"

definition emit :: "event \<Rightarrow> unit prog" where
  "emit ev = (\<lambda>s. (s\<lparr>trace := trace s @ [ev]\<rparr>, Inr ()))"

text \<open>
  A call into the external library: it is logged, and it returns or raises as the
  library decides.
\<close>

definition call :: "event \<Rightarrow> exn + 'a \<Rightarrow> 'a prog" where
  "call ev r = and_then (emit ev) (\<lambda>_. (\<lambda>s. (s, r)))"

subsection \<open>The Python built-ins the script uses\<close>

definition os_path_exists :: "string \<Rightarrow> bool prog" where
  "os_path_exists path = and_then (emit (PathExists path)) (\<lambda>_. (\<lambda>s. (s, Inr (files s path \<noteq> None))))"

record file_handle =
  handle_path :: string
  handle_mode :: string

text \<open>
  \<^verbatim>\<open>open(name, mode)\<close>. Mode \<^verbatim>\<open>"r"\<close> never changes the file system; \<^verbatim>\<open>"w"\<close>
  truncates or creates the file, \<^verbatim>\<open>"a"\<close> creates it when it is missing.
\<close>

definition py_open :: "pyval \<Rightarrow> string \<Rightarrow> file_handle prog" where
  "py_open name mode =
     (case name of
        PyStr path \<Rightarrow>
          and_then (emit (Open path mode)) (\<lambda>_. (\<lambda>s.
            let fp = \<lparr>handle_path = path, handle_mode = mode\<rparr> in
            if mode = ''r'' then
              (case files s path of
                 None \<Rightarrow> (s, Inl (IOError ''No such file or directory''))
               | Some Directory \<Rightarrow> (s, Inl (IOError ''Is a directory''))
               | Some Unreadable \<Rightarrow> (s, Inl (IOError ''Permission denied''))
               | Some _ \<Rightarrow> (s, Inr fp))
            else if mode = ''w'' then
              (case files s path of
                 Some Directory \<Rightarrow> (s, Inl (IOError ''Is a directory''))
               | Some Unreadable \<Rightarrow> (s, Inl (IOError ''Permission denied''))
               | _ \<Rightarrow> (s\<lparr>files := (files s)(path \<mapsto> Regular [])\<rparr>, Inr fp))
            else if mode = ''a'' then
              (case files s path of
                 None \<Rightarrow> (s\<lparr>files := (files s)(path \<mapsto> Regular [])\<rparr>, Inr fp)
               | Some Directory \<Rightarrow> (s, Inl (IOError ''Is a directory''))
               | Some Unreadable \<Rightarrow> (s, Inl (IOError ''Permission denied''))
               | Some _ \<Rightarrow> (s, Inr fp))
            else (s, Inl (ValueError ''mode string must begin with one of r, w or a''))))
      | _ \<Rightarrow> raise_exn (TypeError ''coercing to Unicode: need string or buffer''))"

definition readlines :: "file_handle \<Rightarrow> string list prog" where
  "readlines fp =
     and_then (emit (ReadLines (handle_path fp))) (\<lambda>_. (\<lambda>s.
       if handle_mode fp \<noteq> ''r'' then (s, Inl (IOError ''File not open for reading''))
       else
         (case files s (handle_path fp) of
            Some (Regular ls) \<Rightarrow> (s, Inr ls)
          | _ \<Rightarrow> (s, Inl (IOError ''Input/output error'')))))"

definition close :: "file_handle \<Rightarrow> unit prog" where
  "close fp = emit (Close (handle_path fp))"

text \<open>\<^verbatim>\<open>"%d" % n\<close> for a Python integer: its decimal digits, with a sign when negative.\<close>

fun digits :: "nat \<Rightarrow> string" where
  "digits n =
     (if n < 10 then [''0123456789'' ! n]
      else digits (n div 10) @ [''0123456789'' ! (n mod 10)])"

declare digits.simps [simp del]

definition format_d :: "int \<Rightarrow> string" where
  "format_d n = (if n < 0 then CHR ''-'' # digits (nat (- n)) else digits (nat n))"

subsection \<open>argparse\<close>

text \<open>
  The part of Python 2.7's argparse the script relies on. A parser holds its actions in
  the order they were added; the constructor adds \<^verbatim>\<open>-h/--help\<close> itself, and
  \<^verbatim>\<open>-v/--version\<close> when it is given a version. Option strings are matched as they
  are declared: argparse's abbreviation of long options and the joined spellings
  \<^verbatim>\<open>-iFILE\<close> and \<^verbatim>\<open>--opt=FILE\<close> are outside this model, which reads such a
  token like any other string that is not an option of the parser; nor does the model
  take a value from behind a \<^verbatim>\<open>--\<close>.
\<close>

datatype action_kind = Store | StoreTrue | Help | Version

text \<open>
  The \<^verbatim>\<open>type=\<close> of an argument. The script's only converter is the closure
  \<^verbatim>\<open>lambda x : is_valid_file(parser, x)\<close>, here the tag \<open>IsValidFile\<close>, applied to the
  parser when the value is converted.
\<close>

datatype converter = NoConversion | IsValidFile

record argument =
  option_strings :: "string list"
  dest :: string
  action :: action_kind
  required :: bool
  metavar :: "string option"
  help_text :: string
  type_conv :: converter

record parser =
  prog :: string
  description :: "string list"
  version :: "pyval option"
  actions :: "argument list"

text \<open>
  The constructor, with the keywords the script gives it. The formatter class only shapes
  the help text and is left out.
\<close>

definition ArgumentParser :: "string \<Rightarrow> string list \<Rightarrow> pyval option \<Rightarrow> parser" where
  "ArgumentParser p d v =
     \<lparr>prog = p, description = d, version = v,
      actions =
        [\<lparr>option_strings = [''-h'', ''--help''], dest = ''help'', action = Help,
          required = False, metavar = None,
          help_text = ''show this help message and exit'', type_conv = NoConversion\<rparr>] @
        (case v of
           None \<Rightarrow> []
         | Some _ \<Rightarrow>
             [\<lparr>option_strings = [''-v'', ''--version''], dest = ''version'', action = Version,
               required = False, metavar = None,
               help_text = ''show program's version number and exit'',
               type_conv = NoConversion\<rparr>])\<rparr>"

definition add_argument :: "parser \<Rightarrow> argument \<Rightarrow> parser" where
  "add_argument P a = P\<lparr>actions := actions P @ [a]\<rparr>"

text \<open>\<^verbatim>\<open>parser.error(message)\<close>: usage and message on stderr, then exit status 2.\<close>

definition parser_error :: "parser \<Rightarrow> string \<Rightarrow> 'a prog" where
  "parser_error P message = and_then (emit (ParserError message)) (\<lambda>_. raise_exn (SystemExit 2))"

text \<open>The script's validity check, the \<^verbatim>\<open>type=\<close> of \<^verbatim>\<open>-i\<close>.\<close>

definition is_valid_file :: "parser \<Rightarrow> string \<Rightarrow> pyval prog" where
  "is_valid_file P arg =
     and_then (os_path_exists arg) (\<lambda>found.
       if \<not> found then parser_error P (''The file '' @ arg @ '' does not exists!'')
       else return_val (PyStr arg))"

definition get_value :: "parser \<Rightarrow> argument \<Rightarrow> string \<Rightarrow> pyval prog" where
  "get_value P a arg_string =
     (case type_conv a of
        NoConversion \<Rightarrow> return_val (PyStr arg_string)
      | IsValidFile \<Rightarrow> is_valid_file P arg_string)"

type_synonym namespace = "string \<rightharpoonup> pyval"

definition find_action :: "parser \<Rightarrow> string \<Rightarrow> argument option" where
  "find_action P arg_string = find (\<lambda>a. arg_string \<in> set (option_strings a)) (actions P)"

definition is_digit :: "char \<Rightarrow> bool" where
  "is_digit c = (c \<in> set ''0123456789'')"

text \<open>argparse's test for a negative number: \<^verbatim>\<open>^-\d+$|^-\d*\.\d+$\<close>.\<close>

definition negative_number :: "string \<Rightarrow> bool" where
  "negative_number s =
     (case s of
        [] \<Rightarrow> False
      | c # ds \<Rightarrow>
          c = CHR ''-'' \<and>
          (let whole = takeWhile is_digit ds; frac = dropWhile is_digit ds in
           (frac = [] \<and> whole \<noteq> []) \<or>
           (case frac of
              [] \<Rightarrow> False
            | d # fs \<Rightarrow> d = CHR ''.'' \<and> fs \<noteq> [] \<and> list_all is_digit fs)))"

text \<open>
  Whether argparse reads a string as an option rather than as a value: it is an option
  string of the parser, or it starts with \<^verbatim>\<open>-\<close>, is longer than one character, is not
  a negative number and holds no space.
\<close>

definition looks_optional :: "parser \<Rightarrow> string \<Rightarrow> bool" where
  "looks_optional P s =
     (case find_action P s of
        Some a \<Rightarrow> True
      | None \<Rightarrow>
          (case s of
             [] \<Rightarrow> False
           | c # cs \<Rightarrow> c = CHR ''-'' \<and> cs \<noteq> [] \<and> \<not> negative_number s \<and> CHR '' '' \<notin> set s))"

text \<open>\<^verbatim>\<open>sep.join(xs)\<close>; an action is named in messages by its option strings.\<close>

fun join :: "string \<Rightarrow> string list \<Rightarrow> string" where
  "join sep [] = []"
| "join sep [x] = x"
| "join sep (x # y # ys) = x @ sep @ join sep (y # ys)"

definition action_name :: "argument \<Rightarrow> string" where
  "action_name a = join ''/'' (option_strings a)"

text \<open>
  The loop over the command line, left to right. It carries the namespace, the
  destinations seen so far and the strings no action took (\<open>extras\<close>). A help or version
  action and a failing conversion end the run at once. The version action formats the
  parser's version as a text: a version that is not a string (the script gives the
  number 0.1) raises \<^verbatim>\<open>TypeError\<close> there. From \<^verbatim>\<open>--\<close> on, every string is positional,
  and this parser has no positional argument.
\<close>

fun parse_loop ::
  "parser \<Rightarrow> namespace \<Rightarrow> string list \<Rightarrow> string list \<Rightarrow> string list \<Rightarrow>
   (namespace \<times> string list \<times> string list) prog" where
  "parse_loop P ns seen extras [] = return_val (ns, seen, extras)"
| "parse_loop P ns seen extras (a # rest) =
     (if a = ''--'' then return_val (ns, seen, extras @ a # rest)
      else
        (case find_action P a of
           None \<Rightarrow> parse_loop P ns seen (extras @ [a]) rest
         | Some act \<Rightarrow>
             (case action act of
                Help \<Rightarrow> and_then (emit PrintHelp) (\<lambda>_. raise_exn (SystemExit 0))
              | Version \<Rightarrow>
                  (case version P of
                     Some (PyStr text) \<Rightarrow>
                       and_then (emit (PrintVersion text)) (\<lambda>_. raise_exn (SystemExit 0))
                   | _ \<Rightarrow> raise_exn (TypeError ''argument of type float is not iterable''))
              | StoreTrue \<Rightarrow>
                  parse_loop P (ns(dest act \<mapsto> PyBool True)) (seen @ [dest act]) extras rest
              | Store \<Rightarrow>
                  (case rest of
                     [] \<Rightarrow>
                       parser_error P
                         (''argument '' @ action_name act @ '': expected one argument'')
                   | v # rest' \<Rightarrow>
                       if looks_optional P v then
                         parser_error P
                           (''argument '' @ action_name act @ '': expected one argument'')
                       else
                         and_then (get_value P act v) (\<lambda>x.
                           parse_loop P (ns(dest act \<mapsto> x)) (seen @ [dest act]) extras rest')))))"

declare parse_loop.simps [simp del]

text \<open>The defaults set before the loop: \<^verbatim>\<open>None\<close>, or \<^verbatim>\<open>False\<close> for a store-true flag.\<close>

fun defaults :: "argument list \<Rightarrow> namespace \<Rightarrow> namespace" where
  "defaults [] ns = ns"
| "defaults (a # as) ns =
     defaults as
       (case action a of
          Store \<Rightarrow> ns(dest a \<mapsto> PyNone)
        | StoreTrue \<Rightarrow> ns(dest a \<mapsto> PyBool False)
        | _ \<Rightarrow> ns)"

text \<open>After the loop: every required action must have been seen.\<close>

fun check_required :: "parser \<Rightarrow> argument list \<Rightarrow> string list \<Rightarrow> unit prog" where
  "check_required P [] seen = return_val ()"
| "check_required P (a # as) seen =
     (if required a \<and> dest a \<notin> set seen then
        parser_error P (''argument '' @ action_name a @ '' is required'')
      else check_required P as seen)"

text \<open>
  \<^verbatim>\<open>parse_args\<close>: defaults, the loop, the required arguments, and last the strings
  that no action took.
\<close>

definition parse_args :: "parser \<Rightarrow> string list \<Rightarrow> namespace prog" where
  "parse_args P argv =
     and_then (parse_loop P (defaults (actions P) Map.empty) [] [] argv) (\<lambda>(ns, seen, extras).
     and_then (check_required P (actions P) seen) (\<lambda>_.
       if extras \<noteq> [] then parser_error P (''unrecognized arguments: '' @ join '' '' extras)
       else return_val ns))"

text \<open>Reading an attribute of the namespace.\<close>

definition getattr :: "namespace \<Rightarrow> string \<Rightarrow> pyval prog" where
  "getattr ns name =
     (case ns name of
        None \<Rightarrow> raise_exn (AttributeError name)
      | Some v \<Rightarrow> return_val v)"

subsection \<open>The external minimizer\<close>

text \<open>
  The class \<^verbatim>\<open>sscha.SchaMinimizer.SSCHA_Minimizer\<close> is defined outside the script. Its
  constructor and methods are parameters: each returns the (updated) object or raises.
  The two attributes the script reads are functions of the object.
\<close>

record 'm library =
  SSCHA_Minimizer :: "exn + 'm"
  setup_from_namelist :: "'m \<Rightarrow> string list \<Rightarrow> exn + 'm"
  init :: "'m \<Rightarrow> exn + 'm"
  run :: "'m \<Rightarrow> exn + 'm"
  finalize :: "'m \<Rightarrow> int \<Rightarrow> exn + 'm"
  dyn_path :: "'m \<Rightarrow> string"
  population :: "'m \<Rightarrow> int"
  save_qe :: "'m \<Rightarrow> string \<Rightarrow> exn + unit"
  plot_results :: "'m \<Rightarrow> pyval \<Rightarrow> pyval \<Rightarrow> exn + unit"

subsection \<open>The script\<close>

definition PROG_NAME :: string where
  "PROG_NAME = ''sscha''"

definition VERSION :: pyval where
  "VERSION = PyNum ''0.1''"

definition DESCRIPTION :: "string list" where
  "DESCRIPTION =
     ['''', '''', '''', '''', '''',
      ''* * * * * * * * * * * * * * * * * * * * * * * * * * *'',
      ''*                                                   *'',
      ''* STOCHASTIC SELF-CONSISTENT HARMONIC APPROXIMATION *'',
      ''*                                                   *'',
      ''* * * * * * * * * * * * * * * * * * * * * * * * * * *'',
      '''', '''', '''',
      ''Wellcome to the SSCHA code. This script will start '',
      ''a SSCHA minimization according to the options parsed'',
      ''from the input file.'',
      ''Note, you can also use the SSCHA utilities directly '',
      ''by programming small and easy python scripts. '',
      ''Refer to the documentation for more details.'',
      '''', '''', '''', '''']"

definition sscha_parser :: parser where
  "sscha_parser =
     add_argument
       (add_argument
          (add_argument
             (ArgumentParser PROG_NAME DESCRIPTION (Some VERSION))
             \<lparr>option_strings = [''-i''], dest = ''filename'', action = Store,
              required = True, metavar = Some ''FILE'',
              help_text = ''Path to the input file'', type_conv = IsValidFile\<rparr>)
          \<lparr>option_strings = [''--plot-results''], dest = ''plot'', action = StoreTrue,
           required = False, metavar = None,
           help_text = ''Plot the results'', type_conv = NoConversion\<rparr>)
       \<lparr>option_strings = [''--save-data''], dest = ''save_data'', action = Store,
        required = False, metavar = Some ''FILE'',
        help_text = ''Save the minimization details'', type_conv = NoConversion\<rparr>"

text \<open>The statements of the script after the parser is built, in the order of the source.\<close>

definition main :: "'m library \<Rightarrow> string list \<Rightarrow> unit prog" where
  "main lib argv =
     and_then (parse_args sscha_parser argv) (\<lambda>args.
     and_then (call NewMinimizer (SSCHA_Minimizer lib)) (\<lambda>minim.
     and_then (getattr args ''filename'') (\<lambda>filename.
     and_then (py_open filename ''r'') (\<lambda>fp.
     and_then (readlines fp) (\<lambda>line_list.
     and_then (close fp) (\<lambda>_.
     and_then (call (SetupFromNamelist line_list) (setup_from_namelist lib minim line_list)) (\<lambda>minim.
     and_then (call Init (init lib minim)) (\<lambda>minim.
     and_then (call Run (run lib minim)) (\<lambda>minim.
     and_then (call (Finalize 2) (finalize lib minim 2)) (\<lambda>minim.
     and_then (call (SaveQE (dyn_path lib minim @ ''_popuation'' @ format_d (population lib minim) @ ''_''))
                 (save_qe lib minim (dyn_path lib minim @ ''_popuation'' @ format_d (population lib minim) @ ''_''))) (\<lambda>_.
     and_then (getattr args ''save_data'') (\<lambda>save_data.
     and_then (getattr args ''plot'') (\<lambda>plot.
       call (PlotResults save_data plot) (plot_results lib minim save_data plot))))))))))))))"

text \<open>A run of the script: from the given file system and an empty log.\<close>

definition sscha :: "'m library \<Rightarrow> filesystem \<Rightarrow> string list \<Rightarrow> state \<times> (exn + unit)" where
  "sscha lib fs argv = main lib argv \<lparr>files = fs, trace = []\<rparr>"


subsection \<open>Observing a run\<close>

text \<open>
  The parse of a command line from an empty log, whether it returned a namespace, and
  the calls it logged.
\<close>

definition parsed :: "filesystem \<Rightarrow> string list \<Rightarrow> state \<times> (exn + namespace)" where
  "parsed fs argv = parse_args sscha_parser argv \<lparr>files = fs, trace = []\<rparr>"

definition accepted :: "filesystem \<Rightarrow> string list \<Rightarrow> bool" where
  "accepted fs argv = (case snd (parsed fs argv) of Inl e \<Rightarrow> False | Inr args \<Rightarrow> True)"

definition parse_trace :: "filesystem \<Rightarrow> string list \<Rightarrow> event list" where
  "parse_trace fs argv = trace (fst (parsed fs argv))"


text \<open>The log of a whole run, how it ended, and the file system it left.\<close>

definition events :: "'m library \<Rightarrow> filesystem \<Rightarrow> string list \<Rightarrow> event list" where
  "events lib fs argv = trace (fst (sscha lib fs argv))"

definition outcome :: "'m library \<Rightarrow> filesystem \<Rightarrow> string list \<Rightarrow> exn + unit" where
  "outcome lib fs argv = snd (sscha lib fs argv)"


text \<open>
  What the command line says, read off the strings themselves: the string that follows
  the last occurrence of an option, and the two values the script hands to
  \<^verbatim>\<open>plot_results\<close>.
\<close>

fun supplied :: "string \<Rightarrow> string list \<Rightarrow> string option" where
  "supplied opt [] = None"
| "supplied opt [x] = None"
| "supplied opt (x # y # ys) =
     (case supplied opt (y # ys) of
        Some v \<Rightarrow> Some v
      | None \<Rightarrow> if x = opt then Some y else None)"

definition plot_arg :: "string list \<Rightarrow> pyval" where
  "plot_arg argv = PyBool (''--plot-results'' \<in> set argv)"

definition save_data_arg :: "string list \<Rightarrow> pyval" where
  "save_data_arg argv =
     (case supplied ''--save-data'' argv of None \<Rightarrow> PyNone | Some f \<Rightarrow> PyStr f)"

text \<open>The file name prefix the script builds for \<^verbatim>\<open>save_qe\<close>.\<close>

definition qe_prefix :: "'m library \<Rightarrow> 'm \<Rightarrow> string" where
  "qe_prefix lib m = dyn_path lib m @ ''_popuation'' @ format_d (population lib m) @ ''_''"







subsection \<open>What plot\_results does\<close>




subsection \<open>The example input and the namelist grammar\<close>

text \<open>
  The lines of \<^verbatim>\<open>Examples/LockModes/simple_mode_locking.in\<close>, without their line ends;
  \<open>CHR 0x09\<close> is the tab that indents the lines inside a group.
\<close>

definition simple_mode_locking_in :: "string list" where
  "simple_mode_locking_in =
     [''! MODE LOCKING EXAMPLE'',
      ''! ===================='',
      ''!'',
      ''! This is an example of constrained sscha minimization'',
      ''! only in a subspace identified by the vibrons of the ice.'',
      ''!'',
      ''! Run this code as usual:'',
      ''! sscha -i simple_mode_locking.in [--plot-results]'',
      ''! Use the last options if you want fancy plots of the minimization at the end.'',
      ''!'',
      ''! Note that a file frequencies.dat is generated'',
      ''! (thanks to save_freq_filename keyword)'',
      ''! You can plot the rows of the files to see how the frequencies are evolving'',
      ''! Example (using ipython):'',
      ''! >>> %pylab'',
      ''! >>> data = loadtxt(\"frequencies.dat\")'',
      ''! >>> n_steps, n_freqs = shape(data)'',
      ''! >>> for i in range(n_freqs):'',
      ''! >>>     plot(data[:, i])'',
      ''! >>> show()'',
      ''!'',
      ''! This will show the frequencies (in Ry), as a function of the minimization.'',
      ''! You can show cm-1 using the cellconstructor.Phonons.RY_TO_CM constant'',
      ''!'',
      ''!'',
      ''! In the case of a supercell, the modes will be blocked in the whole q space.'',
      ''! Make sure they do not cross with other modes in the Brilluin zone.'',
      ''! To have a more detailed control on the modes to lock, use the python script instead'',
      ''! '',
      ''!'',
      '''',
      ''! Setup the standard sscha'',
      ''&inputscha'',
      CHR 0x09 # ''fildyn_prefix = \"../ensemble_data_test/dyn\"'',
      CHR 0x09 # ''nqirr = 1'',
      CHR 0x09 # ''supercell_size = 1 1 1'',
      '''',
      CHR 0x09 # ''data_dir = \"../ensemble_data_test\"'',
      '''',
      CHR 0x09 # ''T = 0'',
      CHR 0x09 # ''Tg = 0'',
      '''',
      CHR 0x09 # ''eq_energy = -144.40680397'',
      CHR 0x09 # ''n_random = 100'',
      CHR 0x09 # ''n_random_eff = 50'',
      CHR 0x09 # ''population = 2'',
      CHR 0x09 # ''meaningful_factor = 0.5'',
      ''&end'',
      '''',
      ''! Now in this namespace we setup the mode locking and'',
      ''! some fancy printing'',
      ''&utils'',
      CHR 0x09 # ''! We lock everithing but the last three modes'',
      CHR 0x09 # ''! Note, we can do the opposite using the'',
      CHR 0x09 # ''! mu_lock_start and mu_lock_end.'',
      CHR 0x09 # ''mu_free_start = 30'',
      CHR 0x09 # ''mu_free_end = 36'',
      '''',
      CHR 0x09 # ''! We project on the mode subspace only the dynamical matrix'',
      CHR 0x09 # ''! leaving the structure to be optimized in all the space.'',
      CHR 0x09 # ''project_dyn = .true.'',
      CHR 0x09 # ''project_structure = .false.'',
      '''',
      CHR 0x09 # ''! Setup the file in which to save the frequency evolution'',
      CHR 0x09 # ''save_freq_filename = \"frequencies.dat\"'',
      ''&end'']"

text \<open>
  The grammar of the specification: a line is blank, a comment starting with \<^verbatim>\<open>!\<close>, a
  group opener \<^verbatim>\<open>&groupname\<close>, the terminator \<^verbatim>\<open>&end\<close>, or an assignment
  \<^verbatim>\<open>key = value\<close> whose value is a quoted string, a number, a Fortran boolean or a
  space-separated array of integers.
\<close>

definition is_blank :: "char \<Rightarrow> bool" where
  "is_blank c = (c = CHR '' '' \<or> c = CHR 0x09)"

definition strip :: "string \<Rightarrow> string" where
  "strip s = rev (dropWhile is_blank (rev (dropWhile is_blank s)))"

definition is_name_char :: "char \<Rightarrow> bool" where
  "is_name_char c =
     (c \<in> set ''abcdefghijklmnopqrstuvwxyzABCDEFGHIJKLMNOPQRSTUVWXYZ0123456789_'')"

definition valid_name :: "string \<Rightarrow> bool" where
  "valid_name n = (n \<noteq> [] \<and> list_all is_name_char n)"

fun words_from :: "string \<Rightarrow> string \<Rightarrow> string list" where
  "words_from cur [] = (if cur = [] then [] else [cur])"
| "words_from cur (c # cs) =
     (if is_blank c then (if cur = [] then words_from [] cs else cur # words_from [] cs)
      else words_from (cur @ [c]) cs)"

definition is_integer :: "string \<Rightarrow> bool" where
  "is_integer s =
     (case s of
        [] \<Rightarrow> False
      | c # ds \<Rightarrow>
          if c = CHR ''-'' \<or> c = CHR ''+'' then ds \<noteq> [] \<and> list_all is_digit ds
          else list_all is_digit s)"

definition is_number :: "string \<Rightarrow> bool" where
  "is_number s =
     (let body = (case s of [] \<Rightarrow> [] | c # ds \<Rightarrow> if c = CHR ''-'' \<or> c = CHR ''+'' then ds else s);
          whole = takeWhile is_digit body;
          rest = dropWhile is_digit body
      in case rest of
           [] \<Rightarrow> whole \<noteq> []
         | d # frac \<Rightarrow> d = CHR ''.'' \<and> list_all is_digit frac \<and> \<not> (whole = [] \<and> frac = []))"

definition is_string :: "string \<Rightarrow> bool" where
  "is_string s =
     (case s of [] \<Rightarrow> False | c # cs \<Rightarrow> c = CHR 0x22 \<and> cs \<noteq> [] \<and> last cs = CHR 0x22)"

definition is_boolean :: "string \<Rightarrow> bool" where
  "is_boolean s = (s = ''.true.'' \<or> s = ''.false.'')"

datatype value_kind = StringValue | NumberValue | BooleanValue | IntegerArray

definition classify_value :: "string \<Rightarrow> value_kind option" where
  "classify_value v =
     (if is_string v then Some StringValue
      else if is_boolean v then Some BooleanValue
      else if is_number v then Some NumberValue
      else if 2 \<le> length (words_from [] v) \<and> list_all is_integer (words_from [] v)
      then Some IntegerArray
      else None)"

datatype line_kind =
  Blank | Comment | GroupOpen string | GroupEnd | Assignment string value_kind | Malformed

definition classify_line :: "string \<Rightarrow> line_kind" where
  "classify_line l =
     (case strip l of
        [] \<Rightarrow> Blank
      | c # cs \<Rightarrow>
          if c = CHR ''!'' then Comment
          else if c = CHR ''&'' then
            (if cs = ''end'' then GroupEnd else if valid_name cs then GroupOpen cs else Malformed)
          else
            (case dropWhile (\<lambda>x. x \<noteq> CHR ''='') (c # cs) of
               [] \<Rightarrow> Malformed
             | eq # v \<Rightarrow>
                 if valid_name (strip (takeWhile (\<lambda>x. x \<noteq> CHR ''='') (c # cs))) then
                   (case classify_value (strip v) of
                      None \<Rightarrow> Malformed
                    | Some k \<Rightarrow>
                        Assignment (strip (takeWhile (\<lambda>x. x \<noteq> CHR ''='') (c # cs))) k)
                 else Malformed))"

text \<open>
  A file conforms when no line is malformed, a group is opened only outside a group and
  closed only inside one, every assignment stands inside a group, and the last group is
  closed. The first argument is the group the line stands in, if any.
\<close>

fun conforms :: "string option \<Rightarrow> line_kind list \<Rightarrow> bool" where
  "conforms g [] = (g = None)"
| "conforms g (Blank # ks) = conforms g ks"
| "conforms g (Comment # ks) = conforms g ks"
| "conforms g (GroupOpen n # ks) = (g = None \<and> conforms (Some n) ks)"
| "conforms g (GroupEnd # ks) = (g \<noteq> None \<and> conforms None ks)"
| "conforms g (Assignment k v # ks) = (g \<noteq> None \<and> conforms g ks)"
| "conforms g (Malformed # ks) = False"

text \<open>The assignments of a file, each with its group, its key and the kind of its value.\<close>

fun assignments ::
  "string option \<Rightarrow> line_kind list \<Rightarrow> (string \<times> string \<times> value_kind) list" where
  "assignments g [] = []"
| "assignments g (GroupOpen n # ks) = assignments (Some n) ks"
| "assignments g (GroupEnd # ks) = assignments None ks"
| "assignments g (Assignment k v # ks) =
     (case g of None \<Rightarrow> assignments g ks | Some n \<Rightarrow> (n, k, v) # assignments g ks)"
| "assignments g (_ # ks) = assignments g ks"

subsection \<open>An example environment\<close>

text \<open>
  A file system holding the example input, an input whose group is never closed, and
  the directory the example names. In the example library \<^verbatim>\<open>setup_from_namelist\<close>
  raises on lines that do not conform to the grammar and every other call returns; the
  object is the number of methods that have returned, and the two attributes are the
  values the example input sets. In a variant of it \<^verbatim>\<open>save_qe\<close> may not write.
\<close>

definition unfinished_in :: "string list" where
  "unfinished_in = [''&inputscha'', CHR 0x09 # ''nqirr = 1'']"

definition example_fs :: filesystem where
  "example_fs =
     [''simple_mode_locking.in'' \<mapsto> Regular simple_mode_locking_in,
      ''unfinished.in'' \<mapsto> Regular unfinished_in,
      ''ensemble_data_test'' \<mapsto> Directory]"

definition example_lib :: "nat library" where
  "example_lib =
     \<lparr>SSCHA_Minimizer = Inr 0,
      setup_from_namelist =
        (\<lambda>m ls.
           if conforms None (map classify_line ls) then Inr (m + 1)
           else Inl (LibraryError ''malformed namelist'')),
      init = (\<lambda>m. Inr (m + 1)),
      run = (\<lambda>m. Inr (m + 1)),
      finalize = (\<lambda>m k. Inr (m + 1)),
      dyn_path = (\<lambda>m. ''../ensemble_data_test/dyn''),
      population = (\<lambda>m. 2),
      save_qe = (\<lambda>m x. Inr ()),
      plot_results = (\<lambda>m a b. Inr ())\<rparr>"


section \<open>Properties of the parser\<close>

subsection \<open>The command line as strings\<close>

lemma supplied_skip: "x \<noteq> opt \<Longrightarrow> supplied opt (x # xs) = supplied opt xs"
  by (cases xs) (auto split: option.splits)

lemma supplied_take:
  "v \<noteq> opt \<Longrightarrow> supplied opt (opt # v # rest) = (case supplied opt rest of None \<Rightarrow> Some v | Some x \<Rightarrow> Some x)"
  by (cases rest) (auto split: option.splits)


subsection \<open>One step of the loop, for the script's parser\<close>

lemma sscha_actions:
  "actions sscha_parser =
     [\<lparr>option_strings = [''-h'', ''--help''], dest = ''help'', action = Help,
          required = False, metavar = None,
          help_text = ''show this help message and exit'', type_conv = NoConversion\<rparr>,
      \<lparr>option_strings = [''-v'', ''--version''], dest = ''version'', action = Version,
               required = False, metavar = None,
               help_text = ''show program's version number and exit'',
               type_conv = NoConversion\<rparr>,
      \<lparr>option_strings = [''-i''], dest = ''filename'', action = Store,
              required = True, metavar = Some ''FILE'',
              help_text = ''Path to the input file'', type_conv = IsValidFile\<rparr>,
      \<lparr>option_strings = [''--plot-results''], dest = ''plot'', action = StoreTrue,
           required = False, metavar = None,
           help_text = ''Plot the results'', type_conv = NoConversion\<rparr>,
      \<lparr>option_strings = [''--save-data''], dest = ''save_data'', action = Store,
        required = False, metavar = Some ''FILE'',
        help_text = ''Save the minimization details'', type_conv = NoConversion\<rparr>]"
  by (simp add: sscha_parser_def add_argument_def ArgumentParser_def)

lemma sscha_version: "version sscha_parser = Some (PyNum ''0.1'')"
  by (simp add: sscha_parser_def add_argument_def ArgumentParser_def VERSION_def)

lemma find_action_sscha:
  "find_action sscha_parser a =
     (if a = ''-h'' \<or> a = ''--help'' then Some (actions sscha_parser ! 0)
      else if a = ''-v'' \<or> a = ''--version'' then Some (actions sscha_parser ! 1)
      else if a = ''-i'' then Some (actions sscha_parser ! 2)
      else if a = ''--plot-results'' then Some (actions sscha_parser ! 3)
      else if a = ''--save-data'' then Some (actions sscha_parser ! 4)
      else None)"
  by (simp add: find_action_def sscha_actions)

lemma parser_error_run:
  "parser_error P msg s = (s\<lparr>trace := trace s @ [ParserError msg]\<rparr>, Inl (SystemExit 2))"
  by (simp add: parser_error_def and_then_def emit_def raise_exn_def)

lemma not_optional_sscha:
  "\<not> looks_optional sscha_parser v \<Longrightarrow>
     v \<noteq> ''-i'' \<and> v \<noteq> ''--plot-results'' \<and> v \<noteq> ''--save-data'' \<and> v \<noteq> ''--'' \<and>
     v \<noteq> ''-h'' \<and> v \<noteq> ''--help'' \<and> v \<noteq> ''-v'' \<and> v \<noteq> ''--version''"
  by (auto simp: looks_optional_def find_action_sscha negative_number_def is_digit_def)

lemma parse_loop_nil: "parse_loop P ns seen extras [] s = (s, Inr (ns, seen, extras))"
  by (simp add: parse_loop.simps return_val_def)

lemma parse_loop_cons:
  "parse_loop sscha_parser ns seen extras (a # rest) s =
     (if a = ''--'' then (s, Inr (ns, seen, extras @ a # rest))
      else if a = ''-h'' \<or> a = ''--help'' then
        (s\<lparr>trace := trace s @ [PrintHelp]\<rparr>, Inl (SystemExit 0))
      else if a = ''-v'' \<or> a = ''--version'' then
        (s, Inl (TypeError ''argument of type float is not iterable''))
      else if a = ''-i'' then
        (case rest of
           [] \<Rightarrow>
             (s\<lparr>trace := trace s @ [ParserError ''argument -i: expected one argument'']\<rparr>,
              Inl (SystemExit 2))
         | v # rest' \<Rightarrow>
             if looks_optional sscha_parser v then
               (s\<lparr>trace := trace s @ [ParserError ''argument -i: expected one argument'']\<rparr>,
                Inl (SystemExit 2))
             else if files s v = None then
               (s\<lparr>trace := trace s @
                   [PathExists v, ParserError (''The file '' @ v @ '' does not exists!'')]\<rparr>,
                Inl (SystemExit 2))
             else
               parse_loop sscha_parser (ns(''filename'' \<mapsto> PyStr v)) (seen @ [''filename''])
                 extras rest' (s\<lparr>trace := trace s @ [PathExists v]\<rparr>))
      else if a = ''--plot-results'' then
        parse_loop sscha_parser (ns(''plot'' \<mapsto> PyBool True)) (seen @ [''plot'']) extras rest s
      else if a = ''--save-data'' then
        (case rest of
           [] \<Rightarrow>
             (s\<lparr>trace := trace s @
                 [ParserError ''argument --save-data: expected one argument'']\<rparr>,
              Inl (SystemExit 2))
         | v # rest' \<Rightarrow>
             if looks_optional sscha_parser v then
               (s\<lparr>trace := trace s @
                   [ParserError ''argument --save-data: expected one argument'']\<rparr>,
                Inl (SystemExit 2))
             else
               parse_loop sscha_parser (ns(''save_data'' \<mapsto> PyStr v)) (seen @ [''save_data''])
                 extras rest' s)
      else parse_loop sscha_parser ns seen (extras @ [a]) rest s)"
  by (auto simp: parse_loop.simps find_action_sscha sscha_actions sscha_version get_value_def
      action_name_def is_valid_file_def os_path_exists_def parser_error_def and_then_def emit_def
      return_val_def raise_exn_def split: list.splits)

text \<open>
  Induction over the loop: a step continues with the rest of the command line, or with
  the rest after the value it took.
\<close>

lemma sscha_loop_induct:
  assumes nil: "\<And>ns seen extras s. Q ns seen extras [] s"
    and cons: "\<And>a rest ns seen extras s.
        (\<And>ns2 seen2 extras2 s2. Q ns2 seen2 extras2 rest s2) \<Longrightarrow>
        (\<And>v rest' ns2 seen2 extras2 s2. rest = v # rest' \<Longrightarrow> Q ns2 seen2 extras2 rest' s2) \<Longrightarrow>
        Q ns seen extras (a # rest) s"
  shows "Q ns seen extras argv s"
proof (induction argv arbitrary: ns seen extras s rule: length_induct)
  case (1 argv)
  show ?case
  proof (cases argv)
    case Nil
    then show ?thesis by (simp add: nil)
  next
    case (Cons a rest)
    have r1: "\<And>ns2 seen2 extras2 s2. Q ns2 seen2 extras2 rest s2"
      using 1 Cons by simp
    have r2: "\<And>v rest' ns2 seen2 extras2 s2. rest = v # rest' \<Longrightarrow> Q ns2 seen2 extras2 rest' s2"
      using 1 Cons by simp
    show ?thesis unfolding Cons by (rule cons [OF r1 r2])
  qed
qed

subsection \<open>What the loop leaves behind\<close>

lemma loop_files:
  "parse_loop sscha_parser ns seen extras argv s = (s', r) \<Longrightarrow> files s' = files s"
proof (induction ns seen extras argv s arbitrary: s' r rule: sscha_loop_induct)
  case (1 ns seen extras s)
  then show ?case by (simp add: parse_loop_nil)
next
  case (2 a rest ns seen extras s)
  from 2(3) show ?case
    unfolding parse_loop_cons
    by (auto split: if_splits list.splits dest!: 2(1) 2(2))
qed

lemma loop_extras:
  "parse_loop sscha_parser ns seen extras argv s = (s', Inr (ns', seen', extras')) \<Longrightarrow>
     \<exists>more. extras' = extras @ more"
proof (induction ns seen extras argv s arbitrary: s' ns' seen' extras' rule: sscha_loop_induct)
  case (1 ns seen extras s)
  then show ?case by (simp add: parse_loop_nil)
next
  case (2 a rest ns seen extras s)
  from 2(3) show ?case
    unfolding parse_loop_cons
    by (auto split: if_splits list.splits dest!: 2(1) 2(2))
qed

lemma loop_plot:
  "parse_loop sscha_parser ns seen extras argv s = (s', Inr (ns', seen', [])) \<Longrightarrow>
     ns' ''plot'' = (if ''--plot-results'' \<in> set argv then Some (PyBool True) else ns ''plot'')"
proof (induction ns seen extras argv s arbitrary: s' ns' seen' rule: sscha_loop_induct)
  case (1 ns seen extras s)
  then show ?case by (simp add: parse_loop_nil)
next
  case (2 a rest ns seen extras s)
  from 2(3) show ?case
    unfolding parse_loop_cons
    by (auto dest!: 2(1) 2(2) not_optional_sscha split: if_splits list.splits)
qed

lemma loop_save_data:
  "parse_loop sscha_parser ns seen extras argv s = (s', Inr (ns', seen', [])) \<Longrightarrow>
     ns' ''save_data'' =
       (case supplied ''--save-data'' argv of None \<Rightarrow> ns ''save_data'' | Some f \<Rightarrow> Some (PyStr f))"
proof (induction ns seen extras argv s arbitrary: s' ns' seen' rule: sscha_loop_induct)
  case (1 ns seen extras s)
  then show ?case by (simp add: parse_loop_nil)
next
  case (2 a rest ns seen extras s)
  from 2(3) show ?case
    unfolding parse_loop_cons
    by (auto simp: supplied_skip supplied_take dest!: 2(1) 2(2) not_optional_sscha
        split: if_splits list.splits option.splits)
qed

lemma loop_filename:
  "parse_loop sscha_parser ns seen extras argv s = (s', Inr (ns', seen', [])) \<Longrightarrow>
     ns' ''filename'' =
       (case supplied ''-i'' argv of None \<Rightarrow> ns ''filename'' | Some p \<Rightarrow> Some (PyStr p))"
proof (induction ns seen extras argv s arbitrary: s' ns' seen' rule: sscha_loop_induct)
  case (1 ns seen extras s)
  then show ?case by (simp add: parse_loop_nil)
next
  case (2 a rest ns seen extras s)
  from 2(3) show ?case
    unfolding parse_loop_cons
    by (auto simp: supplied_skip supplied_take dest!: 2(1) 2(2) not_optional_sscha
        split: if_splits list.splits option.splits)
qed

lemma loop_seen:
  "parse_loop sscha_parser ns seen extras argv s = (s', Inr (ns', seen', [])) \<Longrightarrow>
     (''filename'' \<in> set seen' \<longleftrightarrow> ''filename'' \<in> set seen \<or> supplied ''-i'' argv \<noteq> None)"
proof (induction ns seen extras argv s arbitrary: s' ns' seen' rule: sscha_loop_induct)
  case (1 ns seen extras s)
  then show ?case by (simp add: parse_loop_nil)
next
  case (2 a rest ns seen extras s)
  from 2(3) show ?case
    unfolding parse_loop_cons
    by (auto simp: supplied_skip supplied_take dest!: 2(1) 2(2) not_optional_sscha
        split: if_splits list.splits option.splits)
qed

lemma loop_exists:
  "parse_loop sscha_parser ns seen extras argv s = (s', Inr (ns', seen', [])) \<Longrightarrow>
     supplied ''-i'' argv = Some p \<Longrightarrow> files s p \<noteq> None"
proof (induction ns seen extras argv s arbitrary: s' ns' seen' rule: sscha_loop_induct)
  case (1 ns seen extras s)
  then show ?case by (simp add: parse_loop_nil)
next
  case (2 a rest ns seen extras s)
  from 2(3) 2(4) show ?case
    unfolding parse_loop_cons
    by (auto simp: supplied_skip supplied_take dest!: 2(1) 2(2) not_optional_sscha
        split: if_splits list.splits option.splits)
qed




subsection \<open>The whole parse\<close>

lemma defaults_sscha:
  "defaults (actions sscha_parser) Map.empty =
     [''filename'' \<mapsto> PyNone, ''plot'' \<mapsto> PyBool False, ''save_data'' \<mapsto> PyNone]"
  by (simp add: sscha_actions)

lemma check_required_sscha:
  "check_required sscha_parser (actions sscha_parser) seen s =
     (if ''filename'' \<notin> set seen then
        (s\<lparr>trace := trace s @ [ParserError ''argument -i is required'']\<rparr>, Inl (SystemExit 2))
      else (s, Inr ()))"
  by (simp add: sscha_actions parser_error_run return_val_def action_name_def)

lemma parse_args_run:
  "parse_args sscha_parser argv s =
     (case parse_loop sscha_parser
             [''filename'' \<mapsto> PyNone, ''plot'' \<mapsto> PyBool False, ''save_data'' \<mapsto> PyNone] [] [] argv s of
        (s1, Inl e) \<Rightarrow> (s1, Inl e)
      | (s1, Inr (ns, seen, extras)) \<Rightarrow>
          if ''filename'' \<notin> set seen then
            (s1\<lparr>trace := trace s1 @ [ParserError ''argument -i is required'']\<rparr>, Inl (SystemExit 2))
          else if extras \<noteq> [] then
            (s1\<lparr>trace := trace s1 @ [ParserError (''unrecognized arguments: '' @ join '' '' extras)]\<rparr>,
             Inl (SystemExit 2))
          else (s1, Inr ns))"
  by (simp add: parse_args_def defaults_sscha and_then_def check_required_sscha parser_error_run
      return_val_def split: prod.splits sum.splits)

lemma parse_args_ok:
  assumes "parse_args sscha_parser argv s = (s', Inr args)"
  shows "files s' = files s"
    and "\<exists>p. supplied ''-i'' argv = Some p \<and> files s p \<noteq> None \<and> args ''filename'' = Some (PyStr p)"
    and "args ''plot'' = Some (PyBool (''--plot-results'' \<in> set argv))"
    and "args ''save_data'' =
           Some (case supplied ''--save-data'' argv of None \<Rightarrow> PyNone | Some f \<Rightarrow> PyStr f)"
proof -
  from assms obtain seen where
    loop: "parse_loop sscha_parser
             [''filename'' \<mapsto> PyNone, ''plot'' \<mapsto> PyBool False, ''save_data'' \<mapsto> PyNone] [] [] argv s =
           (s', Inr (args, seen, []))"
    and seen: "''filename'' \<in> set seen"
    by (auto simp: parse_args_run split: prod.splits sum.splits if_splits)
  show "files s' = files s" using loop by (rule loop_files)
  from loop_seen [OF loop] seen obtain p where p: "supplied ''-i'' argv = Some p" by auto
  with loop_exists [OF loop p] loop_filename [OF loop]
  show "\<exists>p. supplied ''-i'' argv = Some p \<and> files s p \<noteq> None \<and> args ''filename'' = Some (PyStr p)"
    by simp
  show "args ''plot'' = Some (PyBool (''--plot-results'' \<in> set argv))"
    using loop_plot [OF loop] by simp
  show "args ''save_data'' =
           Some (case supplied ''--save-data'' argv of None \<Rightarrow> PyNone | Some f \<Rightarrow> PyStr f)"
    using loop_save_data [OF loop] by (simp split: option.splits)
qed

lemma accepted_parsed:
  assumes "accepted fs argv"
  obtains s1 args p where
    "parse_args sscha_parser argv \<lparr>files = fs, trace = []\<rparr> = (s1, Inr args)"
    "files s1 = fs" "trace s1 = parse_trace fs argv"
    "supplied ''-i'' argv = Some p" "fs p \<noteq> None"
    "args ''filename'' = Some (PyStr p)"
    "args ''plot'' = Some (plot_arg argv)"
    "args ''save_data'' = Some (save_data_arg argv)"
proof -
  from assms obtain s1 args where
    run: "parse_args sscha_parser argv \<lparr>files = fs, trace = []\<rparr> = (s1, Inr args)"
    by (cases "parsed fs argv") (auto simp: accepted_def parsed_def split: sum.splits)
  from parse_args_ok(2) [OF run] obtain p where
    "supplied ''-i'' argv = Some p" "fs p \<noteq> None" "args ''filename'' = Some (PyStr p)"
    by auto
  moreover have "files s1 = fs" using parse_args_ok(1) [OF run] by simp
  moreover have "trace s1 = parse_trace fs argv" using run by (simp add: parse_trace_def parsed_def)
  moreover have "args ''plot'' = Some (plot_arg argv)"
    using parse_args_ok(3) [OF run] by (simp add: plot_arg_def)
  moreover have "args ''save_data'' = Some (save_data_arg argv)"
    using parse_args_ok(4) [OF run] by (simp add: save_data_arg_def)
  ultimately show thesis using run that by blast
qed







section \<open>Properties of a run\<close>


lemma main_run:
  assumes "parse_args sscha_parser argv s = (s1, Inr args)"
    and "args ''filename'' = Some (PyStr p)"
    and "args ''save_data'' = Some a"
    and "args ''plot'' = Some b"
  shows "main lib argv s =
    (case SSCHA_Minimizer lib of
       Inl e \<Rightarrow> (s1\<lparr>trace := trace s1 @ [NewMinimizer]\<rparr>, Inl e)
     | Inr m0 \<Rightarrow>
        (case files s1 p of
           None \<Rightarrow>
             (s1\<lparr>trace := trace s1 @ [NewMinimizer, Open p ''r'']\<rparr>,
              Inl (IOError ''No such file or directory''))
         | Some Directory \<Rightarrow>
             (s1\<lparr>trace := trace s1 @ [NewMinimizer, Open p ''r'']\<rparr>,
              Inl (IOError ''Is a directory''))
         | Some Unreadable \<Rightarrow>
             (s1\<lparr>trace := trace s1 @ [NewMinimizer, Open p ''r'']\<rparr>,
              Inl (IOError ''Permission denied''))
         | Some Faulty \<Rightarrow>
             (s1\<lparr>trace := trace s1 @ [NewMinimizer, Open p ''r'', ReadLines p]\<rparr>,
              Inl (IOError ''Input/output error''))
         | Some (Regular ls) \<Rightarrow>
            (case setup_from_namelist lib m0 ls of
               Inl e \<Rightarrow>
                 (s1\<lparr>trace := trace s1 @
                     [NewMinimizer, Open p ''r'', ReadLines p, Close p, SetupFromNamelist ls]\<rparr>, Inl e)
             | Inr m1 \<Rightarrow>
                (case init lib m1 of
                   Inl e \<Rightarrow>
                     (s1\<lparr>trace := trace s1 @
                         [NewMinimizer, Open p ''r'', ReadLines p, Close p, SetupFromNamelist ls,
                          Init]\<rparr>, Inl e)
                 | Inr m2 \<Rightarrow>
                    (case run lib m2 of
                       Inl e \<Rightarrow>
                         (s1\<lparr>trace := trace s1 @
                             [NewMinimizer, Open p ''r'', ReadLines p, Close p, SetupFromNamelist ls,
                              Init, Run]\<rparr>, Inl e)
                     | Inr m3 \<Rightarrow>
                        (case finalize lib m3 2 of
                           Inl e \<Rightarrow>
                             (s1\<lparr>trace := trace s1 @
                                 [NewMinimizer, Open p ''r'', ReadLines p, Close p,
                                  SetupFromNamelist ls, Init, Run, Finalize 2]\<rparr>, Inl e)
                         | Inr m4 \<Rightarrow>
                            (case save_qe lib m4 (qe_prefix lib m4) of
                               Inl e \<Rightarrow>
                                 (s1\<lparr>trace := trace s1 @
                                     [NewMinimizer, Open p ''r'', ReadLines p, Close p,
                                      SetupFromNamelist ls, Init, Run, Finalize 2,
                                      SaveQE (qe_prefix lib m4)]\<rparr>, Inl e)
                             | Inr u \<Rightarrow>
                                 (s1\<lparr>trace := trace s1 @
                                     [NewMinimizer, Open p ''r'', ReadLines p, Close p,
                                      SetupFromNamelist ls, Init, Run, Finalize 2,
                                      SaveQE (qe_prefix lib m4), PlotResults a b]\<rparr>,
                                  (case plot_results lib m4 a b of Inl e \<Rightarrow> Inl e | Inr u' \<Rightarrow> Inr ())))))))))"
  using assms
  by (simp add: main_def and_then_def call_def emit_def getattr_def py_open_def readlines_def
      close_def return_val_def raise_exn_def qe_prefix_def
      split: sum.splits option.splits node.splits)

text \<open>
  A run whose command line is accepted, written out: one branch for each call that can
  raise.
\<close>

lemma sscha_accepted:
  assumes "accepted fs argv" and "supplied ''-i'' argv = Some p"
  shows "sscha lib fs argv =
    (case SSCHA_Minimizer lib of
       Inl e \<Rightarrow> (\<lparr>files = fs, trace = parse_trace fs argv @ [NewMinimizer]\<rparr>, Inl e)
     | Inr m0 \<Rightarrow>
        (case fs p of
           None \<Rightarrow>
             (\<lparr>files = fs, trace = parse_trace fs argv @ [NewMinimizer, Open p ''r'']\<rparr>,
              Inl (IOError ''No such file or directory''))
         | Some Directory \<Rightarrow>
             (\<lparr>files = fs, trace = parse_trace fs argv @ [NewMinimizer, Open p ''r'']\<rparr>,
              Inl (IOError ''Is a directory''))
         | Some Unreadable \<Rightarrow>
             (\<lparr>files = fs, trace = parse_trace fs argv @ [NewMinimizer, Open p ''r'']\<rparr>,
              Inl (IOError ''Permission denied''))
         | Some Faulty \<Rightarrow>
             (\<lparr>files = fs, trace = parse_trace fs argv @ [NewMinimizer, Open p ''r'', ReadLines p]\<rparr>,
              Inl (IOError ''Input/output error''))
         | Some (Regular ls) \<Rightarrow>
            (case setup_from_namelist lib m0 ls of
               Inl e \<Rightarrow>
                 (\<lparr>files = fs, trace = parse_trace fs argv @
                     [NewMinimizer, Open p ''r'', ReadLines p, Close p, SetupFromNamelist ls]\<rparr>,
                  Inl e)
             | Inr m1 \<Rightarrow>
                (case init lib m1 of
                   Inl e \<Rightarrow>
                     (\<lparr>files = fs, trace = parse_trace fs argv @
                         [NewMinimizer, Open p ''r'', ReadLines p, Close p, SetupFromNamelist ls,
                          Init]\<rparr>, Inl e)
                 | Inr m2 \<Rightarrow>
                    (case run lib m2 of
                       Inl e \<Rightarrow>
                         (\<lparr>files = fs, trace = parse_trace fs argv @
                             [NewMinimizer, Open p ''r'', ReadLines p, Close p,
                              SetupFromNamelist ls, Init, Run]\<rparr>, Inl e)
                     | Inr m3 \<Rightarrow>
                        (case finalize lib m3 2 of
                           Inl e \<Rightarrow>
                             (\<lparr>files = fs, trace = parse_trace fs argv @
                                 [NewMinimizer, Open p ''r'', ReadLines p, Close p,
                                  SetupFromNamelist ls, Init, Run, Finalize 2]\<rparr>, Inl e)
                         | Inr m4 \<Rightarrow>
                            (case save_qe lib m4 (qe_prefix lib m4) of
                               Inl e \<Rightarrow>
                                 (\<lparr>files = fs, trace = parse_trace fs argv @
                                     [NewMinimizer, Open p ''r'', ReadLines p, Close p,
                                      SetupFromNamelist ls, Init, Run, Finalize 2,
                                      SaveQE (qe_prefix lib m4)]\<rparr>, Inl e)
                             | Inr u \<Rightarrow>
                                 (\<lparr>files = fs, trace = parse_trace fs argv @
                                     [NewMinimizer, Open p ''r'', ReadLines p, Close p,
                                      SetupFromNamelist ls, Init, Run, Finalize 2,
                                      SaveQE (qe_prefix lib m4),
                                      PlotResults (save_data_arg argv) (plot_arg argv)]\<rparr>,
                                  (case plot_results lib m4 (save_data_arg argv) (plot_arg argv) of
                                     Inl e \<Rightarrow> Inl e | Inr u' \<Rightarrow> Inr ())))))))))"
proof -
  from assms(1) obtain s1 args q where *:
    "parse_args sscha_parser argv \<lparr>files = fs, trace = []\<rparr> = (s1, Inr args)"
    "files s1 = fs" "trace s1 = parse_trace fs argv"
    "supplied ''-i'' argv = Some q" "fs q \<noteq> None"
    "args ''filename'' = Some (PyStr q)"
    "args ''plot'' = Some (plot_arg argv)"
    "args ''save_data'' = Some (save_data_arg argv)"
    by (rule accepted_parsed)
  from *(4) assms(2) have q: "q = p" by simp
  have s1: "\<And>t. s1\<lparr>trace := t\<rparr> = \<lparr>files = fs, trace = t\<rparr>"
    using *(2) by (cases s1) simp
  show ?thesis
    unfolding sscha_def main_run [OF *(1) *(6) *(8) *(7)]
    by (simp add: s1 q *(2) *(3) split: sum.splits option.splits node.splits)
qed







subsection \<open>The example environment\<close>





lemma unfinished_malformed: "\<not> conforms None (map classify_line unfinished_in)"
  by code_simp




section \<open>The claims\<close>










text \<open>
  C4. After the command line is accepted, nothing catches an exception and nothing is
  tried again: whichever call raises first (the constructor, opening or reading the
  input file, \<^verbatim>\<open>setup_from_namelist\<close>, \<^verbatim>\<open>init\<close>, \<^verbatim>\<open>run\<close>, \<^verbatim>\<open>finalize\<close>, \<^verbatim>\<open>save_qe\<close> or
  \<^verbatim>\<open>plot_results\<close>), the run ends with exactly that exception, and the log ends with
  that call, every earlier call standing in it once. The script sets no exit status of
  its own: when every call returns, the run ends normally.
\<close>

theorem C4_failures_propagate:
  assumes "accepted fs argv" and "supplied ''-i'' argv = Some p"
  shows
    "(SSCHA_Minimizer lib = Inl e \<longrightarrow>
        events lib fs argv = parse_trace fs argv @ [NewMinimizer] \<and>
        outcome lib fs argv = Inl e) \<and>
     (SSCHA_Minimizer lib = Inr obj \<and> fs p = Some Directory \<longrightarrow>
        events lib fs argv = parse_trace fs argv @ [NewMinimizer, Open p ''r''] \<and>
        outcome lib fs argv = Inl (IOError ''Is a directory'')) \<and>
     (SSCHA_Minimizer lib = Inr obj \<and> fs p = Some Unreadable \<longrightarrow>
        events lib fs argv = parse_trace fs argv @ [NewMinimizer, Open p ''r''] \<and>
        outcome lib fs argv = Inl (IOError ''Permission denied'')) \<and>
     (SSCHA_Minimizer lib = Inr obj \<and> fs p = Some Faulty \<longrightarrow>
        events lib fs argv = parse_trace fs argv @ [NewMinimizer, Open p ''r'', ReadLines p] \<and>
        outcome lib fs argv = Inl (IOError ''Input/output error'')) \<and>
     (SSCHA_Minimizer lib = Inr obj \<and> fs p = Some (Regular ls) \<and>
      setup_from_namelist lib obj ls = Inl e \<longrightarrow>
        events lib fs argv =
          parse_trace fs argv @
          [NewMinimizer, Open p ''r'', ReadLines p, Close p, SetupFromNamelist ls] \<and>
        outcome lib fs argv = Inl e) \<and>
     (SSCHA_Minimizer lib = Inr obj \<and> fs p = Some (Regular ls) \<and>
      setup_from_namelist lib obj ls = Inr configured \<and> init lib configured = Inl e \<longrightarrow>
        events lib fs argv =
          parse_trace fs argv @
          [NewMinimizer, Open p ''r'', ReadLines p, Close p, SetupFromNamelist ls, Init] \<and>
        outcome lib fs argv = Inl e) \<and>
     (SSCHA_Minimizer lib = Inr obj \<and> fs p = Some (Regular ls) \<and>
      setup_from_namelist lib obj ls = Inr configured \<and> init lib configured = Inr started \<and> run lib started = Inl e \<longrightarrow>
        events lib fs argv =
          parse_trace fs argv @
          [NewMinimizer, Open p ''r'', ReadLines p, Close p, SetupFromNamelist ls, Init, Run] \<and>
        outcome lib fs argv = Inl e) \<and>
     (SSCHA_Minimizer lib = Inr obj \<and> fs p = Some (Regular ls) \<and>
      setup_from_namelist lib obj ls = Inr configured \<and> init lib configured = Inr started \<and> run lib started = Inr minimized \<and>
      finalize lib minimized 2 = Inl e \<longrightarrow>
        events lib fs argv =
          parse_trace fs argv @
          [NewMinimizer, Open p ''r'', ReadLines p, Close p, SetupFromNamelist ls, Init, Run,
           Finalize 2] \<and>
        outcome lib fs argv = Inl e) \<and>
     (SSCHA_Minimizer lib = Inr obj \<and> fs p = Some (Regular ls) \<and>
      setup_from_namelist lib obj ls = Inr configured \<and> init lib configured = Inr started \<and> run lib started = Inr minimized \<and>
      finalize lib minimized 2 = Inr final \<and> save_qe lib final (qe_prefix lib final) = Inl e \<longrightarrow>
        events lib fs argv =
          parse_trace fs argv @
          [NewMinimizer, Open p ''r'', ReadLines p, Close p, SetupFromNamelist ls, Init, Run,
           Finalize 2, SaveQE (qe_prefix lib final)] \<and>
        outcome lib fs argv = Inl e) \<and>
     (SSCHA_Minimizer lib = Inr obj \<and> fs p = Some (Regular ls) \<and>
      setup_from_namelist lib obj ls = Inr configured \<and> init lib configured = Inr started \<and> run lib started = Inr minimized \<and>
      finalize lib minimized 2 = Inr final \<and> save_qe lib final (qe_prefix lib final) = Inr u \<longrightarrow>
        events lib fs argv =
          parse_trace fs argv @
          [NewMinimizer, Open p ''r'', ReadLines p, Close p, SetupFromNamelist ls, Init, Run,
           Finalize 2, SaveQE (qe_prefix lib final),
           PlotResults (save_data_arg argv) (plot_arg argv)] \<and>
        outcome lib fs argv =
          (case plot_results lib final (save_data_arg argv) (plot_arg argv) of
             Inl e' \<Rightarrow> Inl e'
           | Inr u' \<Rightarrow> Inr ()))"
  unfolding events_def outcome_def sscha_accepted [OF assms]
  by simp

theorem C4_failures_propagate_witness:
  "accepted example_fs [''-i'', ''unfinished.in''] \<and>
   supplied ''-i'' [''-i'', ''unfinished.in''] = Some ''unfinished.in'' \<and>
   setup_from_namelist example_lib 0 unfinished_in = Inl (LibraryError ''malformed namelist'') \<and>
   events example_lib example_fs [''-i'', ''unfinished.in''] =
     parse_trace example_fs [''-i'', ''unfinished.in''] @
     [NewMinimizer, Open ''unfinished.in'' ''r'', ReadLines ''unfinished.in'',
      Close ''unfinished.in'', SetupFromNamelist unfinished_in] \<and>
   outcome example_lib example_fs [''-i'', ''unfinished.in''] =
     Inl (LibraryError ''malformed namelist'')"
proof -
  have h: "accepted example_fs [''-i'', ''unfinished.in'']" by code_simp
  have s: "supplied ''-i'' [''-i'', ''unfinished.in''] = Some ''unfinished.in''"
    by simp
  have l: "SSCHA_Minimizer example_lib = Inr 0 \<and>
           example_fs ''unfinished.in'' = Some (Regular unfinished_in) \<and>
           setup_from_namelist example_lib 0 unfinished_in =
             Inl (LibraryError ''malformed namelist'')"
    by (simp add: example_lib_def example_fs_def unfinished_malformed)
  show ?thesis
    using C4_failures_propagate [OF h s, where lib = example_lib and obj = 0 and
        ls = unfinished_in and e = "LibraryError ''malformed namelist''"] h s l
    by simp
qed






text \<open>
  C7. The example input \<^verbatim>\<open>simple_mode_locking.in\<close> conforms to the namelist grammar:
  every line is blank, a comment, a group opener, \<^verbatim>\<open>&end\<close> or an assignment of a
  string, a number, a Fortran boolean or an integer array; its two groups,
  \<^verbatim>\<open>&inputscha\<close> and \<^verbatim>\<open>&utils\<close>, are each opened and then closed, and every
  assignment stands inside one of them.
\<close>

theorem C7_example_input_conforms:
  "conforms None (map classify_line simple_mode_locking_in) \<and>
   filter (\<lambda>k. k \<noteq> Blank \<and> k \<noteq> Comment) (map classify_line simple_mode_locking_in) =
     [GroupOpen ''inputscha'',
      Assignment ''fildyn_prefix'' StringValue,
      Assignment ''nqirr'' NumberValue,
      Assignment ''supercell_size'' IntegerArray,
      Assignment ''data_dir'' StringValue,
      Assignment ''T'' NumberValue,
      Assignment ''Tg'' NumberValue,
      Assignment ''eq_energy'' NumberValue,
      Assignment ''n_random'' NumberValue,
      Assignment ''n_random_eff'' NumberValue,
      Assignment ''population'' NumberValue,
      Assignment ''meaningful_factor'' NumberValue,
      GroupEnd,
      GroupOpen ''utils'',
      Assignment ''mu_free_start'' NumberValue,
      Assignment ''mu_free_end'' NumberValue,
      Assignment ''project_dyn'' BooleanValue,
      Assignment ''project_structure'' BooleanValue,
      Assignment ''save_freq_filename'' StringValue,
      GroupEnd] \<and>
   map fst (assignments None (map classify_line simple_mode_locking_in)) =
     replicate 11 ''inputscha'' @ replicate 5 ''utils''"
  by code_simp








end
